theory Spec2Isabelle
  imports Main "HOL-Library.AList"
begin

section \<open>User export job of bookwyrm (\<open>bookwyrm/models/bookwyrm_export_job.py\<close>)\<close>

text \<open>
  The module exports one user's account: \<open>json_export\<close> collects the user's rows from
  the database into a nested dictionary and encodes it as JSON, \<open>tar_export\<close> writes the JSON
  text and the referenced images into an archive, and \<open>start_export_task\<close> drives both as a
  background task on a \<open>BookwyrmExportJob\<close>.

  The embedding is shallow. A table is the list of its rows, a queryset is the list of rows it
  yields, a Python dictionary is an association list in insertion order, an exception is the
  left summand of a result.
\<close>

subsection \<open>Values\<close>

text \<open>What the payload is made of: the values Python hands to the JSON encoder.\<close>

datatype json =
    JNull
  | JBool bool
  | JInt int
  | JStr string
  | JList "json list"
  | JObj "(string \<times> json) list"

type_synonym pydict = "(string \<times> json) list"

text \<open>The exceptions the module can meet. All of them are \<open>Exception\<close>s for the two
  broad \<open>except Exception\<close> handlers.\<close>

datatype error =
    DatabaseError
  | DoesNotExist
  | KeyError
  | IndexError
  | OSError
  | TypeError

definition ebind :: "error + 'a \<Rightarrow> ('a \<Rightarrow> error + 'b) \<Rightarrow> error + 'b" where
  "ebind m f = (case m of Inl e \<Rightarrow> Inl e | Inr x \<Rightarrow> f x)"

text \<open>A loop whose body may raise: the first exception ends it.\<close>

fun emap :: "('a \<Rightarrow> error + 'b) \<Rightarrow> 'a list \<Rightarrow> error + 'b list" where
  "emap f [] = Inr []"
| "emap f (x # xs) =
     (case f x of
        Inl e \<Rightarrow> Inl e
      | Inr y \<Rightarrow> (case emap f xs of Inl e \<Rightarrow> Inl e | Inr ys \<Rightarrow> Inr (y # ys)))"

subsection \<open>Rows\<close>

text \<open>
  The models are declared outside this module. A row carries the columns the module's queries
  name, and \<open>cols\<close>: its remaining columns as \<open>QuerySet.values()\<close> yields them.
\<close>

record image =
  image_name :: string
  image_url :: string

text \<open>An image field is falsy when it holds no file (\<open>None\<close>) and truthy otherwise.\<close>

record user =
  user_id :: nat
  remote_id :: string
  username :: json
  name :: json
  summary :: json
  manually_approves_followers :: json
  hide_follows :: json
  show_goal :: json
  show_suggested_users :: json
  discoverable :: json
  preferred_timezone :: json
  default_post_privacy :: json
  avatar :: "image option"
  saved_lists :: "nat list"

record annual_goal =
  goal_user :: nat
  goal :: int
  year :: int
  privacy :: string

text \<open>\<open>ReadThrough\<close>, \<open>Review\<close>, \<open>Comment\<close> and \<open>Quotation\<close> rows each link a
  user to a book.\<close>

record user_book_row =
  ub_id :: nat
  ub_user :: nat
  ub_book :: nat
  ub_cols :: pydict

record shelf =
  shelf_id :: nat
  shelf_user :: nat
  shelf_identifier :: string
  shelf_cols :: pydict

record shelf_book =
  sb_id :: nat
  sb_user :: nat
  sb_book :: nat
  sb_shelf :: nat
  sb_cols :: pydict

record book_list =
  list_id :: nat
  list_user :: nat
  list_name :: string
  list_remote_id :: string
  list_cols :: pydict

record list_item =
  li_id :: nat
  li_book_list :: nat
  li_book :: nat
  li_cols :: pydict

record author =
  author_id :: nat
  author_cols :: pydict

record edition =
  edition_id :: nat
  cover :: "image option"
  edition_cols :: pydict

record book =
  book_id :: nat
  book_cols :: pydict

text \<open>\<open>UserFollows\<close> and \<open>UserBlocks\<close>: the subject follows (blocks) the object.\<close>

record user_rel =
  rel_id :: nat
  user_subject :: nat
  user_object :: nat

record database =
  users :: "user list"
  annual_goals :: "annual_goal list"
  readthroughs :: "user_book_row list"
  shelves :: "shelf list"
  shelf_books :: "shelf_book list"
  lists :: "book_list list"
  list_items :: "list_item list"
  reviews :: "user_book_row list"
  comments :: "user_book_row list"
  quotations :: "user_book_row list"
  authors :: "author list"
  book_authors :: "(nat \<times> nat) list"
  books :: "book list"
  user_follows :: "user_rel list"
  user_blocks :: "user_rel list"

subsection \<open>The world around the module\<close>

text \<open>
  The places where the module evaluates a query or touches a file, each of which may raise.
\<close>

datatype site =
    GoalsIter
  | ReadthroughsFetch
  | BooksFetch
  | BookNested nat
  | SavedListsFetch
  | FollowsFetch
  | BlocksFetch
  | Encode
  | FileOpen
  | TarOpen
  | TarWriteBytes
  | TarAddAvatar
  | EditionsFetch
  | TarAddCover nat
  | TarClose
  | FileClose
  | JobSave

text \<open>
  \<^item> \<open>db\<close>: the tables;
  \<^item> \<open>viewer_aware_objects\<close>: \<open>Edition.viewer_aware_objects(user)\<close>, declared with the
    models;
  \<^item> \<open>DOMAIN\<close>: the setting of that name;
  \<^item> \<open>encode\<close>: \<open>DjangoJSONEncoder().encode\<close>;
  \<^item> \<open>utf8\<close>: \<open>str.encode("utf-8")\<close>;
  \<^item> \<open>uuid4\<close>: the name \<open>str(uuid4())\<close> draws;
  \<^item> \<open>fault\<close>: the exception a site raises, if it raises;
  \<^item> \<open>goals_yielded\<close>: how many goals the iteration over the reading goals yields before
    it raises, when \<open>GoalsIter\<close> raises.
\<close>

record world =
  db :: database
  viewer_aware_objects :: "user \<Rightarrow> edition list"
  DOMAIN :: string
  encode :: "json \<Rightarrow> string"
  utf8 :: "string \<Rightarrow> string"
  uuid4 :: string
  fault :: "site \<Rightarrow> error option"
  goals_yielded :: nat

text \<open>Evaluating at a site gives the value unless the site raises.\<close>

definition at_site :: "world \<Rightarrow> site \<Rightarrow> 'a \<Rightarrow> error + 'a" where
  "at_site w s x = (case fault w s of Some e \<Rightarrow> Inl e | None \<Rightarrow> Inr x)"

subsection \<open>Queryset operations\<close>

text \<open>\<open>.distinct()\<close> drops repeated rows; \<open>.values()\<close> turns a row into a dictionary
  with its \<open>id\<close> first. A queryset yields its rows in the order of the table; where the
  database is free to choose another order, nothing below depends on it.\<close>

definition distinct_qs :: "'a list \<Rightarrow> 'a list" where
  "distinct_qs xs = remdups xs"

definition with_id :: "nat \<Rightarrow> pydict \<Rightarrow> pydict" where
  "with_id i cols = (''id'', JInt (int i)) # cols"

definition values_ub :: "user_book_row \<Rightarrow> pydict" where
  "values_ub r = with_id (ub_id r) (ub_cols r)"

definition values_shelf :: "shelf \<Rightarrow> pydict" where
  "values_shelf s = with_id (shelf_id s) (shelf_cols s)"

definition values_shelf_book :: "shelf_book \<Rightarrow> pydict" where
  "values_shelf_book sb = with_id (sb_id sb) (sb_cols sb)"

definition values_list :: "book_list \<Rightarrow> pydict" where
  "values_list l = with_id (list_id l) (list_cols l)"

definition values_list_item :: "list_item \<Rightarrow> pydict" where
  "values_list_item li = with_id (li_id li) (li_cols li)"

definition values_author :: "author \<Rightarrow> pydict" where
  "values_author a = with_id (author_id a) (author_cols a)"

definition values_edition :: "edition \<Rightarrow> pydict" where
  "values_edition e = with_id (edition_id e) (edition_cols e)"

definition values_book :: "book \<Rightarrow> pydict" where
  "values_book b = with_id (book_id b) (book_cols b)"

definition dicts :: "pydict list \<Rightarrow> json" where
  "dicts ds = JList (map JObj ds)"

subsection \<open>\<open>get_books_for_user\<close>\<close>

text \<open>The six lookups of the \<open>Q\<close> expression, each a join from the edition to rows of
  the user.\<close>

definition on_shelf_of :: "database \<Rightarrow> nat \<Rightarrow> edition \<Rightarrow> bool" where
  "on_shelf_of d uid e \<longleftrightarrow>
     (\<exists>sb \<in> set (shelf_books d). sb_book sb = edition_id e \<and>
        (\<exists>s \<in> set (shelves d). shelf_id s = sb_shelf sb \<and> shelf_user s = uid))"

definition has_row_of :: "user_book_row list \<Rightarrow> nat \<Rightarrow> edition \<Rightarrow> bool" where
  "has_row_of rows uid e \<longleftrightarrow>
     (\<exists>r \<in> set rows. ub_book r = edition_id e \<and> ub_user r = uid)"

definition on_list_of :: "database \<Rightarrow> nat \<Rightarrow> edition \<Rightarrow> bool" where
  "on_list_of d uid e \<longleftrightarrow>
     (\<exists>li \<in> set (list_items d). li_book li = edition_id e \<and>
        (\<exists>l \<in> set (lists d). list_id l = li_book_list li \<and> list_user l = uid))"

definition related_to :: "database \<Rightarrow> nat \<Rightarrow> edition \<Rightarrow> bool" where
  "related_to d uid e \<longleftrightarrow>
     on_shelf_of d uid e
     \<or> has_row_of (readthroughs d) uid e
     \<or> has_row_of (reviews d) uid e
     \<or> on_list_of d uid e
     \<or> has_row_of (comments d) uid e
     \<or> has_row_of (quotations d) uid e"

text \<open>The joins of the filter repeat an edition once per matching row; \<open>.distinct()\<close>
  removes the repetitions, so the filter is written as a test on the edition.\<close>

definition get_books_for_user :: "world \<Rightarrow> user \<Rightarrow> edition list \<times> book list" where
  "get_books_for_user w u =
     (let all_books = viewer_aware_objects w u;
          editions = distinct_qs (filter (related_to (db w) (user_id u)) all_books);
          books = distinct_qs
            (filter (\<lambda>b. book_id b \<in> set (map edition_id editions)) (books (db w)))
      in (editions, books))"

subsection \<open>\<open>json_export\<close>\<close>

text \<open>\<open>getattr(user, k)\<close> for the attributes named in \<open>vals\<close>.\<close>

definition vals :: "string list" where
  "vals = [''username'', ''name'', ''summary'', ''manually_approves_followers'',
     ''hide_follows'', ''show_goal'', ''show_suggested_users'', ''discoverable'',
     ''preferred_timezone'', ''default_post_privacy'']"

definition getattr_user :: "user \<Rightarrow> string \<Rightarrow> json" where
  "getattr_user u k =
     (if k = ''username'' then username u
      else if k = ''name'' then name u
      else if k = ''summary'' then summary u
      else if k = ''manually_approves_followers'' then manually_approves_followers u
      else if k = ''hide_follows'' then hide_follows u
      else if k = ''show_goal'' then show_goal u
      else if k = ''show_suggested_users'' then show_suggested_users u
      else if k = ''discoverable'' then discoverable u
      else if k = ''preferred_timezone'' then preferred_timezone u
      else default_post_privacy u)"

definition exported_user :: "world \<Rightarrow> user \<Rightarrow> pydict" where
  "exported_user w u =
     (let d = fold (\<lambda>k d. AList.update k (getattr_user u k) d) vals []
      in case avatar u of
           None \<Rightarrow> d
         | Some img \<Rightarrow> AList.update ''avatar'' (JStr (''https://'' @ DOMAIN w @ image_url img)) d)"

text \<open>The reading goals. The loop appends one dictionary per goal; when the iteration raises,
  the handler passes and the list keeps the goals appended until then.\<close>

definition reading_goals :: "world \<Rightarrow> user \<Rightarrow> annual_goal list" where
  "reading_goals w u =
     distinct_qs (filter (\<lambda>g. goal_user g = user_id u) (annual_goals (db w)))"

definition goal_dict :: "annual_goal \<Rightarrow> pydict" where
  "goal_dict g = [(''goal'', JInt (goal g)), (''year'', JInt (year g)), (''privacy'', JStr (privacy g))]"

definition goals_list :: "world \<Rightarrow> user \<Rightarrow> pydict list" where
  "goals_list w u =
     (case fault w GoalsIter of
        None \<Rightarrow> map goal_dict (reading_goals w u)
      | Some e \<Rightarrow> map goal_dict (take (goals_yielded w) (reading_goals w u)))"

text \<open>The user's read-throughs: the local variable \<open>readthroughs\<close>, the empty list when
  the query raises.\<close>

definition user_readthroughs :: "world \<Rightarrow> user \<Rightarrow> pydict list" where
  "user_readthroughs w u =
     (case at_site w ReadthroughsFetch
             (map values_ub
                (distinct_qs (filter (\<lambda>r. ub_user r = user_id u) (readthroughs (db w))))) of
        Inl e \<Rightarrow> []
      | Inr rs \<Rightarrow> rs)"

text \<open>The queries of the loop over the books.\<close>

definition authors_of :: "database \<Rightarrow> edition \<Rightarrow> author list" where
  "authors_of d e =
     [a. a \<leftarrow> authors d, ba \<leftarrow> book_authors d, fst ba = edition_id e, snd ba = author_id a]"

definition rows_of :: "user_book_row list \<Rightarrow> nat \<Rightarrow> nat \<Rightarrow> user_book_row list" where
  "rows_of rows uid bid = distinct_qs (filter (\<lambda>r. ub_user r = uid \<and> ub_book r = bid) rows)"

definition shelf_books_of :: "database \<Rightarrow> nat \<Rightarrow> nat \<Rightarrow> shelf_book list" where
  "shelf_books_of d uid bid =
     distinct_qs (filter (\<lambda>sb. sb_user sb = uid \<and> sb_book sb = bid) (shelf_books d))"

text \<open>\<open>Shelf.objects.filter(shelfbook__in=shelf_books, user=user)\<close> has no
  \<open>.distinct()\<close>: the join yields a shelf once per matching shelf book.\<close>

definition shelves_from_books :: "database \<Rightarrow> nat \<Rightarrow> nat \<Rightarrow> shelf list" where
  "shelves_from_books d uid bid =
     [s. s \<leftarrow> shelves d, shelf_user s = uid, sb \<leftarrow> shelf_books_of d uid bid,
         sb_shelf sb = shelf_id s]"

definition shelf_contents :: "database \<Rightarrow> nat \<Rightarrow> shelf \<Rightarrow> shelf_book list" where
  "shelf_contents d uid s =
     distinct_qs (filter (\<lambda>sb. sb_user sb = uid \<and> sb_shelf sb = shelf_id s) (shelf_books d))"

definition book_lists :: "database \<Rightarrow> nat \<Rightarrow> nat \<Rightarrow> book_list list" where
  "book_lists d uid bid =
     distinct_qs
       [l. l \<leftarrow> lists d, list_user l = uid, li \<leftarrow> list_items d,
           li_book_list li = list_id l, li_book li = bid]"

definition list_items_of :: "database \<Rightarrow> book_list \<Rightarrow> list_item list" where
  "list_items_of d l = distinct_qs (filter (\<lambda>li. li_book_list li = list_id l) (list_items d))"

definition shelf_books_dict :: "database \<Rightarrow> nat \<Rightarrow> shelf list \<Rightarrow> pydict" where
  "shelf_books_dict d uid ss =
     fold (\<lambda>s acc. AList.update (shelf_identifier s)
                      (dicts (map values_shelf_book (shelf_contents d uid s))) acc) ss []"

definition list_items_dict :: "database \<Rightarrow> book_list list \<Rightarrow> pydict" where
  "list_items_dict d ls =
     fold (\<lambda>l acc. AList.update (list_name l)
                      (dicts (map values_list_item (list_items_of d l))) acc) ls []"

text \<open>One turn of the loop \<open>for book in books.values()\<close>. \<open>book["id"]\<close> is the row's id.
  The queries of the turn are one site; \<open>edition.values()[0]\<close> raises \<open>IndexError\<close> on
  an empty queryset. \<open>edition.first()\<close> is that same first row: the rows of the queryset
  share one id.\<close>

definition export_book :: "world \<Rightarrow> user \<Rightarrow> edition list \<Rightarrow> book \<Rightarrow> error + pydict" where
  "export_book w u editions bk =
     (let d = db w; uid = user_id u; bid = book_id bk;
          edition = filter (\<lambda>e. edition_id e = bid) editions
      in ebind (at_site w (BookNested bid) (values_book bk)) (\<lambda>book.
           case edition of
             [] \<Rightarrow> Inl IndexError
           | e # _ \<Rightarrow>
               Inr (AList.update ''quotes'' (dicts (map values_ub (rows_of (quotations d) uid bid)))
                   (AList.update ''comments'' (dicts (map values_ub (rows_of (comments d) uid bid)))
                   (AList.update ''reviews'' (dicts (map values_ub (rows_of (reviews d) uid bid)))
                   (AList.update ''list_items'' (JObj (list_items_dict d (book_lists d uid bid)))
                   (AList.update ''lists'' (dicts (map values_list (book_lists d uid bid)))
                   (AList.update ''shelf_books''
                      (JObj (shelf_books_dict d uid (shelves_from_books d uid bid)))
                   (AList.update ''shelves''
                      (dicts (map values_shelf (shelves_from_books d uid bid)))
                   (AList.update ''readthroughs''
                      (dicts (map values_ub (rows_of (readthroughs d) uid bid)))
                   (AList.update ''authors'' (dicts (map values_author (authors_of d e)))
                   (AList.update ''edition'' (JObj (values_edition e)) book))))))))))))"

definition saved_lists_of :: "database \<Rightarrow> user \<Rightarrow> string list" where
  "saved_lists_of d u =
     map list_remote_id (distinct_qs (filter (\<lambda>l. list_id l \<in> set (saved_lists u)) (lists d)))"

text \<open>\<open>User.objects.filter(userfollows_user_object__in=follows)\<close>: the users that are the
  object of one of the rows; likewise for the blocks.\<close>

definition objects_of :: "database \<Rightarrow> user_rel list \<Rightarrow> nat \<Rightarrow> string list" where
  "objects_of d rels uid =
     (let mine = distinct_qs (filter (\<lambda>f. user_subject f = uid) rels);
          others = distinct_qs [x. x \<leftarrow> users d, f \<leftarrow> mine, user_object f = user_id x]
      in map remote_id others)"

definition strs :: "string list \<Rightarrow> json" where
  "strs xs = JList (map JStr xs)"

text \<open>The dictionary \<open>data\<close> that \<open>json_export\<close> builds before it encodes it.\<close>

definition export_payload :: "world \<Rightarrow> user \<Rightarrow> error + pydict" where
  "export_payload w u =
     (let exported = exported_user w u;
          goals = goals_list w u;
          readthroughs = user_readthroughs w u;
          editions = fst (get_books_for_user w u)
      in ebind (at_site w BooksFetch (snd (get_books_for_user w u))) (\<lambda>books.
         ebind (emap (export_book w u editions) books) (\<lambda>final_books.
         ebind (at_site w SavedListsFetch (saved_lists_of (db w) u)) (\<lambda>saved.
         ebind (at_site w FollowsFetch (objects_of (db w) (user_follows (db w)) (user_id u)))
           (\<lambda>follows.
         ebind (at_site w BlocksFetch (objects_of (db w) (user_blocks (db w)) (user_id u)))
           (\<lambda>blocks.
         Inr [(''user'', JObj exported),
              (''goals'', dicts goals),
              (''books'', dicts final_books),
              (''saved_lists'', strs saved),
              (''follows'', strs follows),
              (''blocked_users'', strs blocks)]))))))"

definition json_export :: "world \<Rightarrow> user \<Rightarrow> error + string" where
  "json_export w u =
     ebind (export_payload w u) (\<lambda>data. at_site w Encode (encode w (JObj data)))"

subsection \<open>\<open>tar_export\<close>\<close>

text \<open>A file holds the members written to the archive in it, first to last; how the archive
  format lays them out in bytes is not this module's.\<close>

datatype member =
    Bytes string
  | Image image "string option"

record export_file =
  file_name :: string
  content :: "member list"

fun add_covers :: "world \<Rightarrow> edition list \<Rightarrow> member list \<Rightarrow> error + member list" where
  "add_covers w [] tar = Inr tar"
| "add_covers w (e # es) tar =
     (case cover e of
        None \<Rightarrow> add_covers w es tar
      | Some img \<Rightarrow>
          ebind (at_site w (TarAddCover (edition_id e)) (tar @ [Image img None]))
            (add_covers w es))"

definition tar_export :: "world \<Rightarrow> string \<Rightarrow> user \<Rightarrow> export_file \<Rightarrow> error + export_file" where
  "tar_export w json_data u file =
     ebind (at_site w FileOpen ()) (\<lambda>_.
     ebind (at_site w TarOpen ()) (\<lambda>_.
     ebind (at_site w TarWriteBytes [Bytes (utf8 w json_data)]) (\<lambda>tar.
     ebind (case avatar u of
              None \<Rightarrow> Inr tar
            | Some img \<Rightarrow> at_site w TarAddAvatar (tar @ [Image img (Some ''avatar'')])) (\<lambda>tar.
     ebind (at_site w EditionsFetch (fst (get_books_for_user w u))) (\<lambda>editions.
     ebind (add_covers w editions tar) (\<lambda>tar.
     ebind (at_site w TarClose ()) (\<lambda>_.
     ebind (at_site w FileClose ()) (\<lambda>_.
     Inr (file\<lparr>content := tar\<rparr>)))))))))"

subsection \<open>\<open>start_export_task\<close>\<close>

record job =
  job_id :: nat
  job_user :: user
  complete :: bool
  status :: string
  export_data :: "export_file option"

text \<open>
  \<^item> \<open>jobs\<close>: the table of export jobs;
  \<^item> \<open>status_updates\<close>: the status updates made so far, as job id and status, oldest first;
  \<^item> \<open>logged\<close>: what \<open>logger.exception\<close> was called with, as job id and exception.
\<close>

record state =
  jobs :: "job list"
  status_updates :: "(nat \<times> string) list"
  logged :: "(nat \<times> error) list"

text \<open>\<open>Model.save(update_fields=fs)\<close> writes the named columns of the object to its row
  and no other.\<close>

definition copy_field :: "job \<Rightarrow> string \<Rightarrow> job \<Rightarrow> job" where
  "copy_field obj f row =
     (if f = ''export_data'' then row\<lparr>export_data := export_data obj\<rparr>
      else if f = ''status'' then row\<lparr>status := status obj\<rparr>
      else if f = ''complete'' then row\<lparr>complete := complete obj\<rparr>
      else if f = ''user'' then row\<lparr>job_user := job_user obj\<rparr>
      else row)"

definition save_job :: "string list \<Rightarrow> job \<Rightarrow> state \<Rightarrow> state" where
  "save_job update_fields obj s =
     s\<lparr>jobs := map (\<lambda>row. if job_id row = job_id obj
                            then fold (copy_field obj) update_fields row else row) (jobs s)\<rparr>"

text \<open>
  Modelled from the spec: \<open>set_status\<close> is a method of \<open>ParentJob\<close>
  (\<open>bookwyrm.models.job\<close>), which is not among the source files. The spec has a failure
  "mark the job failed" and the task have "a single job-status side effect". So the status a
  job is given when it ends, \<open>failed\<close> or \<open>complete\<close>, is its last: the call records
  the status on the job and in its row and, for one of these two, sets the \<open>complete\<close> flag,
  the flag the task reads on line 41 for a job that is over; a call on a job whose flag is set
  changes nothing and is no status update.
\<close>

definition final_status :: "string \<Rightarrow> bool" where
  "final_status st \<longleftrightarrow> st = ''failed'' \<or> st = ''complete''"

definition set_status :: "string \<Rightarrow> job \<Rightarrow> state \<Rightarrow> job \<times> state" where
  "set_status st obj s =
     (if complete obj then (obj, s)
      else
        (let obj' = obj\<lparr>status := st, complete := final_status st\<rparr>
         in (obj', (save_job [''status'', ''complete''] obj' s)
                     \<lparr>status_updates := status_updates s @ [(job_id obj, st)]\<rparr>)))"

text \<open>The body of the \<open>try\<close>: the job object and the state it leaves when it does not
  raise.\<close>

definition new_file :: "world \<Rightarrow> export_file" where
  "new_file w = \<lparr>file_name = uuid4 w, content = []\<rparr>"

definition export_body :: "world \<Rightarrow> job \<Rightarrow> state \<Rightarrow> error + job \<times> state" where
  "export_body w obj s =
     (let file = new_file w
      in ebind (json_export w (job_user obj)) (\<lambda>json_data.
         ebind (tar_export w json_data (job_user obj) file) (\<lambda>file'.
         let obj' = obj\<lparr>export_data := Some file'\<rparr>
         in ebind (at_site w JobSave ()) (\<lambda>_.
              Inr (obj', save_job [''export_data''] obj' s)))))"

text \<open>The task. \<open>kwargs["job_id"]\<close> and \<open>objects.get\<close> are outside the \<open>try\<close>. The
  handler does not return: after it, control reaches \<open>job.set_status("complete")\<close> as it
  does after a body that returned. When the body raises, the job object holds the new file in
  \<open>export_data\<close>; nothing reads what was written into it before the exception.\<close>

definition start_export_task :: "world \<Rightarrow> (string \<Rightarrow> nat option) \<Rightarrow> state \<Rightarrow> error + state" where
  "start_export_task w kwargs s =
     (case kwargs ''job_id'' of
        None \<Rightarrow> Inl KeyError
      | Some jid \<Rightarrow>
          (case find (\<lambda>row. job_id row = jid) (jobs s) of
             None \<Rightarrow> Inl DoesNotExist
           | Some obj \<Rightarrow>
               if complete obj then Inr s
               else
                 (case export_body w obj s of
                    Inr (obj', s') \<Rightarrow> Inr (snd (set_status ''complete'' obj' s'))
                  | Inl err \<Rightarrow>
                      (let s1 = s\<lparr>logged := logged s @ [(job_id obj, err)]\<rparr>;
                           (obj2, s2) = set_status ''failed'' (obj\<lparr>export_data := Some (new_file w)\<rparr>) s1
                       in Inr (snd (set_status ''complete'' obj2 s2))))))"

subsection \<open>A small instance\<close>

text \<open>Alice follows Bob and blocks Carol. She has one edition on a shelf and on a list, with a
  read-through; Bob has reviewed another edition.\<close>

definition person :: "nat \<Rightarrow> string \<Rightarrow> image option \<Rightarrow> nat list \<Rightarrow> user" where
  "person i n av sl =
     \<lparr>user_id = i, remote_id = ''https://b.example/user/'' @ n, username = JStr n,
      name = JStr n, summary = JNull, manually_approves_followers = JBool False,
      hide_follows = JBool False, show_goal = JBool True, show_suggested_users = JBool True,
      discoverable = JBool True, preferred_timezone = JStr ''UTC'',
      default_post_privacy = JStr ''public'', avatar = av, saved_lists = sl\<rparr>"

definition alice :: user where
  "alice = person 1 ''alice'' (Some \<lparr>image_name = ''a.png'', image_url = ''/images/a.png''\<rparr>) [1]"

definition bob :: user where
  "bob = person 2 ''bob'' None []"

definition carol :: user where
  "carol = person 3 ''carol'' None []"

definition ed10 :: edition where
  "ed10 = \<lparr>edition_id = 10,
           cover = Some \<lparr>image_name = ''c.jpg'', image_url = ''/images/c.jpg''\<rparr>,
           edition_cols = [(''pages'', JInt 100)]\<rparr>"

definition ed11 :: edition where
  "ed11 = \<lparr>edition_id = 11, cover = None, edition_cols = []\<rparr>"

definition demo_db :: database where
  "demo_db =
     \<lparr>users = [alice, bob, carol],
      annual_goals = [\<lparr>goal_user = 1, goal = 12, year = 2023, privacy = ''public''\<rparr>,
                      \<lparr>goal_user = 1, goal = 20, year = 2024, privacy = ''public''\<rparr>],
      readthroughs = [\<lparr>ub_id = 1, ub_user = 1, ub_book = 10, ub_cols = []\<rparr>],
      shelves = [\<lparr>shelf_id = 1, shelf_user = 1, shelf_identifier = ''to-read'', shelf_cols = []\<rparr>],
      shelf_books = [\<lparr>sb_id = 1, sb_user = 1, sb_book = 10, sb_shelf = 1, sb_cols = []\<rparr>],
      lists = [\<lparr>list_id = 1, list_user = 1, list_name = ''favs'',
                list_remote_id = ''https://b.example/list/1'', list_cols = []\<rparr>],
      list_items = [\<lparr>li_id = 1, li_book_list = 1, li_book = 10, li_cols = []\<rparr>],
      reviews = [\<lparr>ub_id = 1, ub_user = 2, ub_book = 11, ub_cols = []\<rparr>],
      comments = [],
      quotations = [],
      authors = [\<lparr>author_id = 1, author_cols = [(''name'', JStr ''Ann'')]\<rparr>],
      book_authors = [(10, 1)],
      books = [\<lparr>book_id = 5, book_cols = []\<rparr>,
               \<lparr>book_id = 10, book_cols = [(''title'', JStr ''T'')]\<rparr>,
               \<lparr>book_id = 11, book_cols = []\<rparr>],
      user_follows = [\<lparr>rel_id = 1, user_subject = 1, user_object = 2\<rparr>],
      user_blocks = [\<lparr>rel_id = 1, user_subject = 1, user_object = 3\<rparr>]\<rparr>"

text \<open>The encoder of the instance writes the keys of an object; nothing depends on it.\<close>

definition demo_world :: world where
  "demo_world =
     \<lparr>db = demo_db,
      viewer_aware_objects = (\<lambda>u. [ed10, ed11]),
      DOMAIN = ''b.example'',
      encode = (\<lambda>j. case j of JObj d \<Rightarrow> concat (map fst d) | _ \<Rightarrow> []),
      utf8 = (\<lambda>s. s),
      uuid4 = ''0f8fad5b'',
      fault = (\<lambda>s. None),
      goals_yielded = 0\<rparr>"


text \<open>The same world with both guarded queries raising, the goals after the first one.\<close>

definition demo_world_goals_fail :: world where
  "demo_world_goals_fail =
     demo_world\<lparr>fault := (\<lambda>s. if s = GoalsIter \<or> s = ReadthroughsFetch
                                then Some DatabaseError else None),
                 goals_yielded := 1\<rparr>"

definition demo_job :: "bool \<Rightarrow> job" where
  "demo_job c =
     \<lparr>job_id = 7, job_user = alice, complete = c, status = ''pending'', export_data = None\<rparr>"

definition demo_state :: "bool \<Rightarrow> state" where
  "demo_state c = \<lparr>jobs = [demo_job c], status_updates = [], logged = []\<rparr>"

definition demo_kwargs :: "string \<Rightarrow> nat option" where
  "demo_kwargs = (\<lambda>k. if k = ''job_id'' then Some 7 else None)"




section \<open>Properties\<close>

subsection \<open>Results and loops\<close>

lemma ebind_Inr_iff: "ebind m f = Inr y \<longleftrightarrow> (\<exists>x. m = Inr x \<and> f x = Inr y)"
  by (cases m) (simp_all add: ebind_def)

lemma at_site_Inr_iff: "at_site w s x = Inr y \<longleftrightarrow> fault w s = None \<and> y = x"
  by (auto simp: at_site_def split: option.splits)



subsection \<open>The books of a user\<close>

lemma editions_set:
  "set (fst (get_books_for_user w u)) =
     {e \<in> set (viewer_aware_objects w u). related_to (db w) (user_id u) e}"
  by (simp add: get_books_for_user_def Let_def distinct_qs_def)

lemma editions_distinct: "distinct (fst (get_books_for_user w u))"
  by (simp add: get_books_for_user_def Let_def distinct_qs_def)

lemma books_set:
  "set (snd (get_books_for_user w u)) =
     {b \<in> set (books (db w)). book_id b \<in> edition_id ` set (fst (get_books_for_user w u))}"
  by (simp add: get_books_for_user_def Let_def distinct_qs_def)

lemma books_distinct: "distinct (snd (get_books_for_user w u))"
  by (simp add: get_books_for_user_def Let_def distinct_qs_def)

lemma book_ids_eq:
  assumes "\<forall>e \<in> set (viewer_aware_objects w u). \<exists>b \<in> set (books (db w)). book_id b = edition_id e"
  shows "book_id ` set (snd (get_books_for_user w u)) = edition_id ` set (fst (get_books_for_user w u))"
proof (intro set_eqI iffI)
  fix i
  assume "i \<in> book_id ` set (snd (get_books_for_user w u))"
  then show "i \<in> edition_id ` set (fst (get_books_for_user w u))"
    unfolding books_set by auto
next
  fix i
  assume "i \<in> edition_id ` set (fst (get_books_for_user w u))"
  then obtain e where e: "e \<in> set (fst (get_books_for_user w u))" and i: "i = edition_id e"
    by auto
  from e have "e \<in> set (viewer_aware_objects w u)"
    unfolding editions_set by simp
  with assms obtain b where b: "b \<in> set (books (db w))" and "book_id b = edition_id e"
    by auto
  with e have "b \<in> set (snd (get_books_for_user w u))"
    unfolding books_set by (simp add: image_iff) metis
  moreover from \<open>book_id b = edition_id e\<close> i have "i = book_id b"
    by simp
  ultimately show "i \<in> book_id ` set (snd (get_books_for_user w u))"
    by (rule rev_image_eqI)
qed

text \<open>
  C4. For every user, \<open>get_books_for_user\<close> returns exactly the viewer-aware editions related
  to the user through a shelf, a read-through, a review, a list, a comment or a quotation, none
  of them twice, together with the rows of \<open>Book\<close> whose id is the id of one of those
  editions, none of them twice either. When every viewer-aware edition has a row in \<open>Book\<close>,
  the ids of the books returned are exactly the ids of the editions returned.
\<close>

theorem get_books_for_user_exact:
  "(\<forall>e. e \<in> set (fst (get_books_for_user w u)) \<longleftrightarrow>
        e \<in> set (viewer_aware_objects w u) \<and>
        ((\<exists>sb \<in> set (shelf_books (db w)). sb_book sb = edition_id e \<and>
            (\<exists>s \<in> set (shelves (db w)). shelf_id s = sb_shelf sb \<and> shelf_user s = user_id u))
         \<or> (\<exists>r \<in> set (readthroughs (db w)). ub_book r = edition_id e \<and> ub_user r = user_id u)
         \<or> (\<exists>r \<in> set (reviews (db w)). ub_book r = edition_id e \<and> ub_user r = user_id u)
         \<or> (\<exists>li \<in> set (list_items (db w)). li_book li = edition_id e \<and>
            (\<exists>l \<in> set (lists (db w)). list_id l = li_book_list li \<and> list_user l = user_id u))
         \<or> (\<exists>r \<in> set (comments (db w)). ub_book r = edition_id e \<and> ub_user r = user_id u)
         \<or> (\<exists>r \<in> set (quotations (db w)). ub_book r = edition_id e \<and> ub_user r = user_id u)))
   \<and> distinct (fst (get_books_for_user w u))
   \<and> (\<forall>b. b \<in> set (snd (get_books_for_user w u)) \<longleftrightarrow>
        b \<in> set (books (db w)) \<and>
        (\<exists>e \<in> set (fst (get_books_for_user w u)). edition_id e = book_id b))
   \<and> distinct (snd (get_books_for_user w u))
   \<and> ((\<forall>e \<in> set (viewer_aware_objects w u). \<exists>b \<in> set (books (db w)). book_id b = edition_id e)
        \<longrightarrow> book_id ` set (snd (get_books_for_user w u))
              = edition_id ` set (fst (get_books_for_user w u)))"
proof (intro conjI allI)
  fix e
  show "e \<in> set (fst (get_books_for_user w u)) \<longleftrightarrow>
        e \<in> set (viewer_aware_objects w u) \<and>
        ((\<exists>sb \<in> set (shelf_books (db w)). sb_book sb = edition_id e \<and>
            (\<exists>s \<in> set (shelves (db w)). shelf_id s = sb_shelf sb \<and> shelf_user s = user_id u))
         \<or> (\<exists>r \<in> set (readthroughs (db w)). ub_book r = edition_id e \<and> ub_user r = user_id u)
         \<or> (\<exists>r \<in> set (reviews (db w)). ub_book r = edition_id e \<and> ub_user r = user_id u)
         \<or> (\<exists>li \<in> set (list_items (db w)). li_book li = edition_id e \<and>
            (\<exists>l \<in> set (lists (db w)). list_id l = li_book_list li \<and> list_user l = user_id u))
         \<or> (\<exists>r \<in> set (comments (db w)). ub_book r = edition_id e \<and> ub_user r = user_id u)
         \<or> (\<exists>r \<in> set (quotations (db w)). ub_book r = edition_id e \<and> ub_user r = user_id u))"
    by (simp add: editions_set related_to_def on_shelf_of_def has_row_of_def on_list_of_def)
next
  show "distinct (fst (get_books_for_user w u))" by (rule editions_distinct)
next
  fix b
  show "b \<in> set (snd (get_books_for_user w u)) \<longleftrightarrow>
        b \<in> set (books (db w)) \<and>
        (\<exists>e \<in> set (fst (get_books_for_user w u)). edition_id e = book_id b)"
    unfolding books_set by (simp add: image_iff) metis
next
  show "distinct (snd (get_books_for_user w u))" by (rule books_distinct)
next
  show "(\<forall>e \<in> set (viewer_aware_objects w u). \<exists>b \<in> set (books (db w)). book_id b = edition_id e)
        \<longrightarrow> book_id ` set (snd (get_books_for_user w u))
              = edition_id ` set (fst (get_books_for_user w u))"
    by (rule impI) (rule book_ids_eq)
qed

lemma demo_books: "get_books_for_user demo_world alice =
   ([ed10], [\<lparr>book_id = 10, book_cols = [(''title'', JStr ''T'')]\<rparr>])"
  by code_simp

theorem get_books_for_user_exact_witness:
  "ed10 \<in> set (fst (get_books_for_user demo_world alice))
   \<and> distinct (fst (get_books_for_user demo_world alice))
   \<and> \<lparr>book_id = 10, book_cols = [(''title'', JStr ''T'')]\<rparr>
        \<in> set (snd (get_books_for_user demo_world alice))
   \<and> book_id ` set (snd (get_books_for_user demo_world alice))
        = edition_id ` set (fst (get_books_for_user demo_world alice))"
proof -
  note t = get_books_for_user_exact [of demo_world alice]
  have "ed10 \<in> set (viewer_aware_objects demo_world alice)
     \<and> (\<exists>r \<in> set (readthroughs (db demo_world)).
           ub_book r = edition_id ed10 \<and> ub_user r = user_id alice)"
    by (simp add: demo_world_def demo_db_def ed10_def alice_def person_def)
  with t [THEN conjunct1, THEN spec, of ed10]
  have 1: "ed10 \<in> set (fst (get_books_for_user demo_world alice))" by blast
  from t [THEN conjunct2, THEN conjunct1]
  have 2: "distinct (fst (get_books_for_user demo_world alice))" .
  have "\<lparr>book_id = 10, book_cols = [(''title'', JStr ''T'')]\<rparr> \<in> set (books (db demo_world))
     \<and> edition_id ed10 = book_id \<lparr>book_id = 10, book_cols = [(''title'', JStr ''T'')]\<rparr>"
    by (simp add: demo_world_def demo_db_def ed10_def)
  with 1 t [THEN conjunct2, THEN conjunct2, THEN conjunct1, THEN spec,
              of "\<lparr>book_id = 10, book_cols = [(''title'', JStr ''T'')]\<rparr>"]
  have 3: "\<lparr>book_id = 10, book_cols = [(''title'', JStr ''T'')]\<rparr>
        \<in> set (snd (get_books_for_user demo_world alice))" by blast
  have "\<forall>e \<in> set (viewer_aware_objects demo_world alice).
          \<exists>b \<in> set (books (db demo_world)). book_id b = edition_id e"
    by (simp add: demo_world_def demo_db_def ed10_def ed11_def)
  with t [THEN conjunct2, THEN conjunct2, THEN conjunct2, THEN conjunct2]
  have 4: "book_id ` set (snd (get_books_for_user demo_world alice))
        = edition_id ` set (fst (get_books_for_user demo_world alice))" by (rule mp)
  from 1 2 3 4 show ?thesis by simp
qed

subsection \<open>The task\<close>

text \<open>
  C9. When the job's \<open>complete\<close> flag is set as the task starts, the task returns at once and
  leaves the state as it was: no row changes (so no \<open>export_data\<close> is written and no status
  modified), no status update is made, nothing is logged.
\<close>

theorem complete_job_untouched:
  "kwargs ''job_id'' = Some jid \<Longrightarrow> find (\<lambda>row. job_id row = jid) (jobs s) = Some obj \<Longrightarrow>
   complete obj \<Longrightarrow> start_export_task w kwargs s = Inr s"
  by (simp add: start_export_task_def)

theorem complete_job_untouched_witness:
  "demo_kwargs ''job_id'' = Some 7
   \<and> find (\<lambda>row. job_id row = 7) (jobs (demo_state True)) = Some (demo_job True)
   \<and> complete (demo_job True)
   \<and> start_export_task demo_world demo_kwargs (demo_state True) = Inr (demo_state True)"
proof -
  have a: "demo_kwargs ''job_id'' = Some 7" by (simp add: demo_kwargs_def)
  have b: "find (\<lambda>row. job_id row = 7) (jobs (demo_state True)) = Some (demo_job True)"
    by (simp add: demo_state_def demo_job_def)
  have c: "complete (demo_job True)" by (simp add: demo_job_def)
  from complete_job_untouched [where kwargs = demo_kwargs and jid = 7
         and s = "demo_state True" and obj = "demo_job True" and w = demo_world, OF a b c] a b c
  show ?thesis by simp
qed

lemma export_body_Inr:
  "export_body w obj s = Inr (obj', s') \<Longrightarrow>
     (\<exists>json_data file'. json_export w (job_user obj) = Inr json_data
        \<and> tar_export w json_data (job_user obj) (new_file w) = Inr file'
        \<and> fault w JobSave = None
        \<and> obj' = obj\<lparr>export_data := Some file'\<rparr>
        \<and> s' = save_job [''export_data''] obj' s)"
  by (auto simp: export_body_def Let_def ebind_Inr_iff at_site_Inr_iff)

text \<open>
  C10. On the success path of the task, the save of the job writes \<open>export_data\<close> to the
  job's row and nothing else: in the state \<open>s'\<close> the body leaves, every row keeps its id, user,
  \<open>complete\<close> flag and status, the rows of other jobs are unchanged, and no status update or
  log entry was added. The task then ends with the status update from that state.
\<close>

theorem save_persists_only_export_data:
  assumes "kwargs ''job_id'' = Some jid"
    and "find (\<lambda>row. job_id row = jid) (jobs s) = Some obj"
    and "\<not> complete obj"
    and "export_body w obj s = Inr (obj', s')"
  shows "start_export_task w kwargs s = Inr (snd (set_status ''complete'' obj' s'))
     \<and> jobs s' = map (\<lambda>row. if job_id row = jid
                             then row\<lparr>export_data := export_data obj'\<rparr> else row) (jobs s)
     \<and> list_all2 (\<lambda>row row'. job_id row' = job_id row \<and> job_user row' = job_user row
                      \<and> complete row' = complete row \<and> status row' = status row)
         (jobs s) (jobs s')
     \<and> status_updates s' = status_updates s
     \<and> logged s' = logged s"
proof -
  from assms(2) have jid: "job_id obj = jid"
    by (auto simp: find_Some_iff)
  from export_body_Inr [OF assms(4)] obtain file' where
    obj': "obj' = obj\<lparr>export_data := Some file'\<rparr>" and
    s': "s' = save_job [''export_data''] obj' s"
    by blast
  have 1: "start_export_task w kwargs s = Inr (snd (set_status ''complete'' obj' s'))"
    using assms by (simp add: start_export_task_def)
  have 2: "jobs s' = map (\<lambda>row. if job_id row = jid
                             then row\<lparr>export_data := export_data obj'\<rparr> else row) (jobs s)"
    by (simp add: s' save_job_def copy_field_def obj' jid)
  have 3: "list_all2 (\<lambda>row row'. job_id row' = job_id row \<and> job_user row' = job_user row
                      \<and> complete row' = complete row \<and> status row' = status row)
         (jobs s) (jobs s')"
    unfolding 2 by (simp add: list_all2_map2 list_all2_same)
  have 4: "status_updates s' = status_updates s" "logged s' = logged s"
    by (simp_all add: s' save_job_def)
  from 1 2 3 4 show ?thesis by simp
qed

theorem save_persists_only_export_data_witness:
  "\<not> isl (export_body demo_world (demo_job False) (demo_state False))
   \<and> list_all2 (\<lambda>row row'. job_id row' = job_id row \<and> job_user row' = job_user row
                    \<and> complete row' = complete row \<and> status row' = status row)
         (jobs (demo_state False))
         (jobs (snd (projr (export_body demo_world (demo_job False) (demo_state False)))))
   \<and> status_updates (snd (projr (export_body demo_world (demo_job False) (demo_state False))))
       = status_updates (demo_state False)"
proof -
  define r where "r = projr (export_body demo_world (demo_job False) (demo_state False))"
  have ok: "\<not> isl (export_body demo_world (demo_job False) (demo_state False))"
    by code_simp
  then have e: "export_body demo_world (demo_job False) (demo_state False) = Inr (fst r, snd r)"
    by (simp add: r_def)
  have a: "demo_kwargs ''job_id'' = Some 7" by (simp add: demo_kwargs_def)
  have b: "find (\<lambda>row. job_id row = 7) (jobs (demo_state False)) = Some (demo_job False)"
    by (simp add: demo_state_def demo_job_def)
  have c: "\<not> complete (demo_job False)" by (simp add: demo_job_def)
  note t = save_persists_only_export_data [where kwargs = demo_kwargs and jid = 7
         and s = "demo_state False" and obj = "demo_job False" and w = demo_world
         and obj' = "fst r" and s' = "snd r", OF a b c e]
  from t have 1: "list_all2 (\<lambda>row row'. job_id row' = job_id row \<and> job_user row' = job_user row
                    \<and> complete row' = complete row \<and> status row' = status row)
         (jobs (demo_state False)) (jobs (snd r))"
    by blast
  from t have 2: "status_updates (snd r) = status_updates (demo_state False)"
    by blast
  from ok 1 2 show ?thesis
    unfolding r_def by blast
qed














subsection \<open>The archive\<close>

lemma add_covers_Inr:
  "add_covers w es tar = Inr tar' \<Longrightarrow>
     tar' = tar @ map (\<lambda>img. Image img None) (List.map_filter cover es)"
proof (induction es arbitrary: tar)
  case Nil
  then show ?case by (simp add: List.map_filter_simps)
next
  case (Cons e es)
  show ?case
  proof (cases "cover e")
    case None
    with Cons.prems have "add_covers w es tar = Inr tar'" by simp
    from Cons.IH [OF this] None show ?thesis by (simp add: List.map_filter_simps)
  next
    case (Some img)
    with Cons.prems have "add_covers w es (tar @ [Image img None]) = Inr tar'"
      by (simp add: ebind_Inr_iff at_site_Inr_iff)
    from Cons.IH [OF this] Some show ?thesis by (simp add: List.map_filter_simps)
  qed
qed

lemma add_covers_total:
  "\<forall>e \<in> set es. fault w (TarAddCover (edition_id e)) = None \<Longrightarrow>
     \<exists>tar'. add_covers w es tar = Inr tar'"
proof (induction es arbitrary: tar)
  case Nil
  then show ?case by simp
next
  case (Cons e es)
  then show ?case
    by (cases "cover e") (auto simp: ebind_def at_site_def)
qed

lemma length_map_filter_distinct:
  assumes "distinct xs"
  shows "length (List.map_filter f xs) = card {x \<in> set xs. f x \<noteq> None}"
proof -
  have "card {x \<in> set xs. f x \<noteq> None} = card (set (filter (\<lambda>x. f x \<noteq> None) xs))"
    by (simp only: set_filter)
  also have "\<dots> = length (filter (\<lambda>x. f x \<noteq> None) xs)"
    by (rule distinct_card) (simp add: assms)
  also have "\<dots> = length (List.map_filter f xs)"
    by (simp add: List.map_filter_def)
  finally show ?thesis by simp
qed

text \<open>
  C7. When \<open>tar_export\<close> returns, the file holds exactly: first the UTF-8 encoding of the JSON
  text; then the user's avatar under the name \<open>avatar\<close> when the user has one; then the cover
  of each of the user's editions that has one, one member per such edition; and nothing else.
  The file keeps its name. When no site raises, \<open>tar_export\<close> returns.
\<close>

theorem tar_export_members:
  "(tar_export w json_data u file = Inr file' \<longrightarrow>
      (\<exists>covers.
         content file' =
           Bytes (utf8 w json_data)
           # (case avatar u of None \<Rightarrow> [] | Some img \<Rightarrow> [Image img (Some ''avatar'')])
           @ map (\<lambda>img. Image img None) covers
         \<and> covers = List.map_filter cover (fst (get_books_for_user w u))
         \<and> length covers = card {e \<in> set (fst (get_books_for_user w u)). cover e \<noteq> None})
      \<and> file_name file' = file_name file)
   \<and> ((\<forall>s. fault w s = None) \<longrightarrow> (\<exists>file'. tar_export w json_data u file = Inr file'))"
proof (intro conjI impI)
  assume r: "tar_export w json_data u file = Inr file'"
  then obtain tar1 tar2 where
    t1: "(case avatar u of None \<Rightarrow> Inr [Bytes (utf8 w json_data)]
          | Some img \<Rightarrow> at_site w TarAddAvatar ([Bytes (utf8 w json_data)] @ [Image img (Some ''avatar'')]))
         = Inr tar1" and
    t2: "add_covers w (fst (get_books_for_user w u)) tar1 = Inr tar2" and
    f: "file' = file\<lparr>content := tar2\<rparr>"
    by (auto simp: tar_export_def ebind_Inr_iff at_site_Inr_iff)
  from t1 have tar1: "tar1 = Bytes (utf8 w json_data)
           # (case avatar u of None \<Rightarrow> [] | Some img \<Rightarrow> [Image img (Some ''avatar'')])"
    by (auto simp: at_site_Inr_iff split: option.splits)
  from add_covers_Inr [OF t2] tar1 f
  have "content file' =
           Bytes (utf8 w json_data)
           # (case avatar u of None \<Rightarrow> [] | Some img \<Rightarrow> [Image img (Some ''avatar'')])
           @ map (\<lambda>img. Image img None) (List.map_filter cover (fst (get_books_for_user w u)))"
    by simp
  then show "\<exists>covers.
         content file' =
           Bytes (utf8 w json_data)
           # (case avatar u of None \<Rightarrow> [] | Some img \<Rightarrow> [Image img (Some ''avatar'')])
           @ map (\<lambda>img. Image img None) covers
         \<and> covers = List.map_filter cover (fst (get_books_for_user w u))
         \<and> length covers = card {e \<in> set (fst (get_books_for_user w u)). cover e \<noteq> None}"
    using length_map_filter_distinct [OF editions_distinct, of cover w u] by simp
  from f show "file_name file' = file_name file" by simp
next
  assume nf: "\<forall>s. fault w s = None"
  then obtain tar' where
    "add_covers w (fst (get_books_for_user w u))
       (Bytes (utf8 w json_data)
           # (case avatar u of None \<Rightarrow> [] | Some img \<Rightarrow> [Image img (Some ''avatar'')])) = Inr tar'"
    using add_covers_total [of "fst (get_books_for_user w u)" w] by blast
  with nf show "\<exists>file'. tar_export w json_data u file = Inr file'"
    by (cases "avatar u") (simp_all add: tar_export_def ebind_def at_site_def)
qed

theorem tar_export_members_witness:
  "content (projr (tar_export demo_world ''{}'' alice (new_file demo_world))) =
     [Bytes ''{}'',
      Image \<lparr>image_name = ''a.png'', image_url = ''/images/a.png''\<rparr> (Some ''avatar''),
      Image \<lparr>image_name = ''c.jpg'', image_url = ''/images/c.jpg''\<rparr> None]"
proof -
  have nf: "\<forall>s. fault demo_world s = None" by (simp add: demo_world_def)
  note t = tar_export_members [of demo_world "''{}''" alice "new_file demo_world"]
  from t nf obtain file' where
    r: "tar_export demo_world ''{}'' alice (new_file demo_world) = Inr file'"
    by blast
  with t [of file'] have "content file' =
           Bytes (utf8 demo_world ''{}'')
           # (case avatar alice of None \<Rightarrow> [] | Some img \<Rightarrow> [Image img (Some ''avatar'')])
           @ map (\<lambda>img. Image img None) (List.map_filter cover (fst (get_books_for_user demo_world alice)))"
    by blast
  then show ?thesis
    by (simp add: r demo_books)
       (simp add: demo_world_def alice_def person_def ed10_def)
qed

subsection \<open>The payload\<close>

lemma export_payload_Inr:
  "export_payload w u = Inr d \<Longrightarrow>
     \<exists>final_books.
       emap (export_book w u (fst (get_books_for_user w u))) (snd (get_books_for_user w u))
         = Inr final_books
       \<and> d = [(''user'', JObj (exported_user w u)),
              (''goals'', dicts (goals_list w u)),
              (''books'', dicts final_books),
              (''saved_lists'', strs (saved_lists_of (db w) u)),
              (''follows'', strs (objects_of (db w) (user_follows (db w)) (user_id u))),
              (''blocked_users'', strs (objects_of (db w) (user_blocks (db w)) (user_id u)))]"
  by (auto simp: export_payload_def Let_def ebind_Inr_iff at_site_Inr_iff)

lemma json_export_Inr:
  "json_export w u = Inr txt \<Longrightarrow> \<exists>d. export_payload w u = Inr d \<and> txt = encode w (JObj d)"
  by (auto simp: json_export_def ebind_Inr_iff at_site_Inr_iff)




lemma demo_json: "json_export demo_world alice = Inr ''usergoalsbookssaved_listsfollowsblocked_users''"
  by code_simp



lemma objects_of_set:
  "set (objects_of d rels uid) =
     remote_id ` {x \<in> set (users d). \<exists>f \<in> set rels. user_subject f = uid \<and> user_object f = user_id x}"
  by (auto simp: objects_of_def Let_def distinct_qs_def)

text \<open>
  C5. The \<open>follows\<close> entry of the payload holds exactly the \<open>remote_id\<close>s of the users that
  are the object of a follow whose subject is the exporting user, and the \<open>blocked_users\<close>
  entry exactly the \<open>remote_id\<close>s of the users that are the object of a block whose subject is
  the exporting user.
\<close>

theorem follows_and_blocks_exact:
  "json_export w u = Inr txt \<Longrightarrow>
     \<exists>d fs bs.
       txt = encode w (JObj d)
       \<and> map_of d ''follows'' = Some (JList (map JStr fs))
       \<and> set fs = remote_id ` {x \<in> set (users (db w)).
                     \<exists>f \<in> set (user_follows (db w)).
                       user_subject f = user_id u \<and> user_object f = user_id x}
       \<and> map_of d ''blocked_users'' = Some (JList (map JStr bs))
       \<and> set bs = remote_id ` {x \<in> set (users (db w)).
                     \<exists>f \<in> set (user_blocks (db w)).
                       user_subject f = user_id u \<and> user_object f = user_id x}"
proof -
  assume "json_export w u = Inr txt"
  from json_export_Inr [OF this] obtain d where
    d: "export_payload w u = Inr d" and t_eq: "txt = encode w (JObj d)"
    by blast
  from export_payload_Inr [OF d] obtain fb where
    deq: "d = [(''user'', JObj (exported_user w u)),
              (''goals'', dicts (goals_list w u)),
              (''books'', dicts fb),
              (''saved_lists'', strs (saved_lists_of (db w) u)),
              (''follows'', strs (objects_of (db w) (user_follows (db w)) (user_id u))),
              (''blocked_users'', strs (objects_of (db w) (user_blocks (db w)) (user_id u)))]"
    by blast
  have 1: "map_of d ''follows''
        = Some (JList (map JStr (objects_of (db w) (user_follows (db w)) (user_id u))))"
    by (simp add: deq strs_def)
  have 2: "map_of d ''blocked_users''
        = Some (JList (map JStr (objects_of (db w) (user_blocks (db w)) (user_id u))))"
    by (simp add: deq strs_def)
  from t_eq 1 2 objects_of_set [of "db w" "user_follows (db w)" "user_id u"]
    objects_of_set [of "db w" "user_blocks (db w)" "user_id u"]
  show ?thesis by blast
qed

lemma demo_followed:
  "{x \<in> set (users (db demo_world)).
      \<exists>f \<in> set (user_follows (db demo_world)).
        user_subject f = user_id alice \<and> user_object f = user_id x} = {bob}"
  by (auto simp: demo_world_def demo_db_def alice_def bob_def carol_def person_def)

lemma demo_blocked:
  "{x \<in> set (users (db demo_world)).
      \<exists>f \<in> set (user_blocks (db demo_world)).
        user_subject f = user_id alice \<and> user_object f = user_id x} = {carol}"
  by (auto simp: demo_world_def demo_db_def alice_def bob_def carol_def person_def)

theorem follows_and_blocks_exact_witness:
  "\<exists>d fs bs.
      json_export demo_world alice = Inr (encode demo_world (JObj d))
      \<and> map_of d ''follows'' = Some (JList (map JStr fs))
      \<and> set fs = {remote_id bob}
      \<and> map_of d ''blocked_users'' = Some (JList (map JStr bs))
      \<and> set bs = {remote_id carol}"
  using follows_and_blocks_exact [OF demo_json]
  unfolding demo_followed demo_blocked by (simp add: demo_json)


lemma get_books_fault: "get_books_for_user (w\<lparr>fault := f\<rparr>) u = get_books_for_user w u"
  by (simp add: get_books_for_user_def)

lemma exported_user_fault: "exported_user (w\<lparr>fault := f\<rparr>) u = exported_user w u"
  by (simp add: exported_user_def Let_def cong: option.case_cong)

lemma export_book_fault:
  "f (BookNested (book_id bk)) = fault w (BookNested (book_id bk)) \<Longrightarrow>
     export_book (w\<lparr>fault := f\<rparr>) u es bk = export_book w u es bk"
  by (simp add: export_book_def at_site_def)

lemma export_payload_guarded:
  "export_payload w u =
     (case export_payload (w\<lparr>fault := (fault w)(GoalsIter := None, ReadthroughsFetch := None)\<rparr>) u of
        Inl e \<Rightarrow> Inl e
      | Inr d \<Rightarrow> Inr (AList.update ''goals'' (dicts (goals_list w u)) d))"
proof -
  have "export_book (w\<lparr>fault := (fault w)(GoalsIter := None, ReadthroughsFetch := None)\<rparr>) u
               (fst (get_books_for_user w u))
      = export_book w u (fst (get_books_for_user w u))"
    by (rule ext) (simp add: export_book_fault)
  then show ?thesis
    by (simp add: export_payload_def Let_def get_books_fault exported_user_fault ebind_def
          at_site_def split: sum.splits option.splits)
qed

text \<open>
  C3. If the export returns when neither the iteration over the reading goals nor the query for
  the read-throughs raises, then it also returns when they do raise, whatever they raise: the
  payload has the same keys, its \<open>goals\<close> entry holds the goals appended before the
  exception (all of them when the iteration does not raise), every other entry is the same, and
  the local list of read-throughs is empty when its query raised.
\<close>

theorem guarded_failures_suppressed:
  assumes "json_export (w\<lparr>fault := (fault w)(GoalsIter := None, ReadthroughsFetch := None)\<rparr>) u
             = Inr txt"
  shows "\<exists>d d'.
      txt = encode w (JObj d)
      \<and> json_export w u = Inr (encode w (JObj d'))
      \<and> d' = AList.update ''goals''
               (dicts (map goal_dict
                  (case fault w GoalsIter of
                     None \<Rightarrow> reading_goals w u
                   | Some e \<Rightarrow> take (goals_yielded w) (reading_goals w u)))) d
      \<and> map fst d' = map fst d
      \<and> (\<forall>k. k \<noteq> ''goals'' \<longrightarrow> map_of d' k = map_of d k)
      \<and> (fault w ReadthroughsFetch \<noteq> None \<longrightarrow> user_readthroughs w u = [])"
proof -
  let ?w0 = "w\<lparr>fault := (fault w)(GoalsIter := None, ReadthroughsFetch := None)\<rparr>"
  from json_export_Inr [OF assms] obtain d where
    d: "export_payload ?w0 u = Inr d" and t_eq: "txt = encode w (JObj d)"
    by auto
  from assms have enc: "fault w Encode = None"
    by (auto simp: json_export_def ebind_Inr_iff at_site_Inr_iff)
  let ?d' = "AList.update ''goals'' (dicts (goals_list w u)) d"
  have p: "export_payload w u = Inr ?d'"
    using export_payload_guarded [of w u] d by simp
  then have j: "json_export w u = Inr (encode w (JObj ?d'))"
    using enc by (simp add: json_export_def ebind_def at_site_def)
  have g: "goals_list w u = map goal_dict
                  (case fault w GoalsIter of
                     None \<Rightarrow> reading_goals w u
                   | Some e \<Rightarrow> take (goals_yielded w) (reading_goals w u))"
    by (simp add: goals_list_def split: option.splits)
  from export_payload_Inr [OF d] have "''goals'' \<in> set (map fst d)"
    by auto
  then have keys: "map fst ?d' = map fst d"
    by (simp add: update_keys)
  have other: "\<forall>k. k \<noteq> ''goals'' \<longrightarrow> map_of ?d' k = map_of d k"
    by (simp add: update_conv')
  have rt: "fault w ReadthroughsFetch \<noteq> None \<longrightarrow> user_readthroughs w u = []"
    by (auto simp: user_readthroughs_def at_site_def)
  from t_eq j g keys other rt show ?thesis
    by (intro exI [of _ d] exI [of _ ?d']) simp
qed

lemma demo_guarded_json:
  "json_export (demo_world_goals_fail
       \<lparr>fault := (fault demo_world_goals_fail)(GoalsIter := None, ReadthroughsFetch := None)\<rparr>) alice
     = Inr ''usergoalsbookssaved_listsfollowsblocked_users''"
  by code_simp

lemma demo_goals_fail_facts:
  "fault demo_world_goals_fail GoalsIter = Some DatabaseError"
  "fault demo_world_goals_fail ReadthroughsFetch = Some DatabaseError"
  "goals_yielded demo_world_goals_fail = 1"
  "reading_goals demo_world_goals_fail alice =
     [\<lparr>goal_user = 1, goal = 12, year = 2023, privacy = ''public''\<rparr>,
      \<lparr>goal_user = 1, goal = 20, year = 2024, privacy = ''public''\<rparr>]"
  by code_simp+

theorem guarded_failures_suppressed_witness:
  "\<exists>d'. json_export demo_world_goals_fail alice = Inr (encode demo_world_goals_fail (JObj d'))
       \<and> map_of d' ''goals'' = Some (JList [JObj [(''goal'', JInt 12), (''year'', JInt 2023),
                                                   (''privacy'', JStr ''public'')]])
       \<and> user_readthroughs demo_world_goals_fail alice = []"
proof -
  from guarded_failures_suppressed [OF demo_guarded_json] obtain d d' where
    j: "json_export demo_world_goals_fail alice = Inr (encode demo_world_goals_fail (JObj d'))"
    and d': "d' = AList.update ''goals''
               (dicts (map goal_dict
                  (case fault demo_world_goals_fail GoalsIter of
                     None \<Rightarrow> reading_goals demo_world_goals_fail alice
                   | Some e \<Rightarrow> take (goals_yielded demo_world_goals_fail)
                                 (reading_goals demo_world_goals_fail alice)))) d"
    and rt: "fault demo_world_goals_fail ReadthroughsFetch \<noteq> None \<longrightarrow>
               user_readthroughs demo_world_goals_fail alice = []"
    by blast
  have "map_of d' ''goals'' = Some (JList [JObj [(''goal'', JInt 12), (''year'', JInt 2023),
                                                   (''privacy'', JStr ''public'')]])"
    by (simp add: d' update_conv' demo_goals_fail_facts dicts_def goal_dict_def)
  with j rt show ?thesis
    by (auto simp: demo_goals_fail_facts)
qed

subsection \<open>The entry of a book\<close>























end
